theory Spec2Isabelle
  imports Complex_Main "HOL-Library.Sublist"
begin

section \<open>Event mapper: pkg/controller/managedresources/mapper.go\<close>

subsection \<open>Data\<close>

text \<open>Go's \<open>error\<close> interface, reduced to the message it carries.\<close>

datatype error = Error string

text \<open>\<open>corev1.LocalObjectReference\<close>: the element type of \<open>Spec.SecretRefs\<close>.\<close>

record LocalObjectReference =
  ref_Name :: string

text \<open>
  Modelled from the spec: the type \<open>resourcesv1alpha1.ManagedResource\<close> is declared in
  pkg/apis/resources/v1alpha1, which is not among the source files. The spec gives it an
  identity (namespace/name), a spec with a list of secret references, and a generation.
  Only the fields that \<open>Map\<close> reads (\<open>Namespace\<close>, \<open>Name\<close>, \<open>Spec.SecretRefs\<close>) and the
  generation are kept.
\<close>

record ManagedResource =
  mr_Namespace :: string
  mr_Name :: string
  mr_Generation :: int
  mr_SecretRefs :: "LocalObjectReference list"

text \<open>\<open>corev1.Secret\<close>, with the two fields \<open>Map\<close> reads.\<close>

record Secret =
  secret_Namespace :: string
  secret_Name :: string

text \<open>
  \<open>runtime.Object\<close> is an interface; the type assertion \<open>obj.Object.(*corev1.Secret)\<close>
  becomes a case distinction on the dynamic type. A non-nil interface value of dynamic
  type \<open>*corev1.Secret\<close> holds a pointer, and that pointer may itself be nil: the
  argument of \<open>SecretObject\<close> is the pointer, \<open>None\<close> when it is nil. \<open>Map\<close> never
  dereferences an object of another type, so those carry no pointer.
\<close>

datatype runtime_Object =
    SecretObject "Secret option"
  | ManagedResourceObject ManagedResource
  | OtherObject string

text \<open>\<open>handler.MapObject\<close>; \<open>Map\<close> reads the field \<open>Object\<close> only. \<open>None\<close> is Go's nil.\<close>

record MapObject =
  Object :: "runtime_Object option"

record NamespacedName =
  Namespace :: string
  Name :: string

record Request =
  NamespacedName :: NamespacedName

text \<open>
  \<open>client.Client\<close> is an interface of controller-runtime; \<open>Map\<close> calls its method
  \<open>List\<close> with \<open>client.InNamespace(ns)\<close> and a \<open>ManagedResourceList\<close> to fill. The method is
  a parameter of the model: given the namespace it returns an error or the items.
\<close>

record Client =
  client_List :: "string \<Rightarrow> error + ManagedResource list"

text \<open>
  \<open>predicate.Predicate\<close> is an interface of controller-runtime; the mapper uses it through
  \<open>EvalGenericPredicate\<close> only, which calls the method \<open>Generic\<close> on the generic event of
  the object. A predicate is therefore modelled by that method.
\<close>

type_synonym predicate = "ManagedResource \<Rightarrow> bool"

record secretToManagedResourceMapper =
  client :: Client
  predicates :: "predicate list"

subsection \<open>Operations\<close>

text \<open>
  \<open>extensionscontroller.EvalGenericPredicate\<close> (gardener-extensions, an external library):
  it loops over the predicates and returns false at the first one whose \<open>Generic\<close> is
  false, true when there is none.
\<close>

fun EvalGenericPredicate :: "ManagedResource \<Rightarrow> predicate list \<Rightarrow> bool" where
  "EvalGenericPredicate obj [] = True"
| "EvalGenericPredicate obj (p # ps) =
     (if \<not> p obj then False else EvalGenericPredicate obj ps)"

text \<open>The request appended at mapper.go lines 59-64.\<close>

definition request_for :: "ManagedResource \<Rightarrow> Request" where
  "request_for mr =
     \<lparr>NamespacedName = \<lparr>Namespace = mr_Namespace mr, Name = mr_Name mr\<rparr>\<rparr>"

text \<open>The inner loop, lines 57-66: \<open>requests\<close> is the slice being appended to.\<close>

fun range_SecretRefs ::
  "ManagedResource \<Rightarrow> Secret \<Rightarrow> LocalObjectReference list \<Rightarrow> Request list \<Rightarrow> Request list"
where
  "range_SecretRefs mr secret [] requests = requests"
| "range_SecretRefs mr secret (secretRef # rest) requests =
     (if ref_Name secretRef = secret_Name secret
      then range_SecretRefs mr secret rest (requests @ [request_for mr])
      else range_SecretRefs mr secret rest requests)"

text \<open>The outer loop, lines 52-67, with its \<open>continue\<close>.\<close>

fun range_Items ::
  "secretToManagedResourceMapper \<Rightarrow> Secret \<Rightarrow> ManagedResource list \<Rightarrow> Request list
    \<Rightarrow> Request list"
where
  "range_Items m secret [] requests = requests"
| "range_Items m secret (mr # rest) requests =
     (if \<not> EvalGenericPredicate mr (predicates m)
      then range_Items m secret rest requests
      else range_Items m secret rest
             (range_SecretRefs mr secret (mr_SecretRefs mr) requests))"

text \<open>A run-time panic of Go: the dereference of a nil pointer.\<close>

datatype panic = NilPointerDereference

text \<open>
  \<open>secretToManagedResourceMapper.Map\<close>, lines 36-69. The result is a slice; Go's nil
  slice is the empty list. The check of line 37 compares the interface with nil, and the
  assertion of line 41 succeeds for every interface of dynamic type \<open>*corev1.Secret\<close>;
  line 47 reads \<open>secret.Namespace\<close>, which panics when the pointer is nil.
\<close>

definition Map :: "secretToManagedResourceMapper \<Rightarrow> MapObject \<Rightarrow> panic + Request list" where
  "Map m obj =
     (case Object obj of
        None \<Rightarrow> Inr []
      | Some ob \<Rightarrow>
          (case ob of
             SecretObject pointer \<Rightarrow>
               (case pointer of
                  None \<Rightarrow> Inl NilPointerDereference
                | Some secret \<Rightarrow>
                    (case client_List (client m) (secret_Namespace secret) of
                       Inl err \<Rightarrow> Inr []
                     | Inr items \<Rightarrow> Inr (range_Items m secret items [])))
           | ManagedResourceObject _ \<Rightarrow> Inr []
           | OtherObject _ \<Rightarrow> Inr []))"

text \<open>\<open>SecretToManagedResourceMapper\<close>, lines 73-75.\<close>

definition SecretToManagedResourceMapper ::
  "Client \<Rightarrow> predicate list \<Rightarrow> secretToManagedResourceMapper" where
  "SecretToManagedResourceMapper c ps = \<lparr>client = c, predicates = ps\<rparr>"

subsection \<open>Vocabulary of the properties\<close>

text \<open>A ManagedResource references a secret name when one of its secret references has it.\<close>

definition references :: "ManagedResource \<Rightarrow> string \<Rightarrow> bool" where
  "references mr n = (n \<in> ref_Name ` set (mr_SecretRefs mr))"

text \<open>How many of its secret references carry the name.\<close>

definition reference_count :: "ManagedResource \<Rightarrow> string \<Rightarrow> nat" where
  "reference_count mr n = count_list (map ref_Name (mr_SecretRefs mr)) n"

text \<open>The event that carries a Secret.\<close>

definition secret_event :: "Secret \<Rightarrow> MapObject" where
  "secret_event secret = \<lparr>Object = Some (SecretObject (Some secret))\<rparr>"

text \<open>The event whose object is an interface holding a nil \<open>*corev1.Secret\<close>.\<close>

definition nil_secret_event :: MapObject where
  "nil_secret_event = \<lparr>Object = Some (SecretObject None)\<rparr>"

text \<open>
  A client that serves \<open>List\<close> from a fixed collection of ManagedResources of all
  namespaces, returning those of the namespace asked for, in order.
\<close>

definition in_namespace :: "string \<Rightarrow> ManagedResource \<Rightarrow> bool" where
  "in_namespace ns mr = (mr_Namespace mr = ns)"

definition listing_client :: "ManagedResource list \<Rightarrow> Client" where
  "listing_client objs = \<lparr>client_List = (\<lambda>ns. Inr (filter (in_namespace ns) objs))\<rparr>"

text \<open>A client whose \<open>List\<close> fails.\<close>

definition failing_client :: "error \<Rightarrow> Client" where
  "failing_client e = \<lparr>client_List = (\<lambda>ns. Inl e)\<rparr>"

text \<open>A ManagedResource passes the mapper's predicate set when every predicate accepts it.\<close>

definition passes :: "secretToManagedResourceMapper \<Rightarrow> ManagedResource \<Rightarrow> bool" where
  "passes m mr = list_all (\<lambda>p. p mr) (predicates m)"

text \<open>
  The ManagedResources of a collection that live in the namespace of the secret and
  reference the secret by name.
\<close>

definition referencing_in_namespace :: "ManagedResource list \<Rightarrow> Secret \<Rightarrow> ManagedResource list"
where
  "referencing_in_namespace objs secret =
     filter (\<lambda>mr. in_namespace (secret_Namespace secret) mr
                  \<and> references mr (secret_Name secret)) objs"

text \<open>What one ManagedResource of the listing contributes to the result.\<close>

definition contribution ::
  "secretToManagedResourceMapper \<Rightarrow> Secret \<Rightarrow> ManagedResource \<Rightarrow> Request list" where
  "contribution m secret mr =
     (if EvalGenericPredicate mr (predicates m)
      then replicate (reference_count mr (secret_Name secret)) (request_for mr)
      else [])"

text \<open>Concrete data for the examples.\<close>

definition never :: predicate where
  "never mr = False"

definition only_mr2 :: predicate where
  "only_mr2 mr = (mr_Name mr = ''mr2'')"

definition secret_s1 :: Secret where
  "secret_s1 = \<lparr>secret_Namespace = ''garden'', secret_Name = ''s1''\<rparr>"

definition mr_once :: ManagedResource where
  "mr_once = \<lparr>mr_Namespace = ''garden'', mr_Name = ''mr1'', mr_Generation = 1,
               mr_SecretRefs = [\<lparr>ref_Name = ''s1''\<rparr>]\<rparr>"

definition mr_twice :: ManagedResource where
  "mr_twice = \<lparr>mr_Namespace = ''garden'', mr_Name = ''mr2'', mr_Generation = 1,
                mr_SecretRefs = [\<lparr>ref_Name = ''s1''\<rparr>, \<lparr>ref_Name = ''s0''\<rparr>, \<lparr>ref_Name = ''s1''\<rparr>]\<rparr>"

definition mr_unrelated :: ManagedResource where
  "mr_unrelated = \<lparr>mr_Namespace = ''garden'', mr_Name = ''mr3'', mr_Generation = 1,
                    mr_SecretRefs = [\<lparr>ref_Name = ''s0''\<rparr>]\<rparr>"

definition mr_elsewhere :: ManagedResource where
  "mr_elsewhere = \<lparr>mr_Namespace = ''shoot'', mr_Name = ''mr4'', mr_Generation = 1,
                    mr_SecretRefs = [\<lparr>ref_Name = ''s1''\<rparr>]\<rparr>"

definition stored :: "ManagedResource list" where
  "stored = [mr_once, mr_twice, mr_unrelated, mr_elsewhere]"

section \<open>The command: NewControllerManagerCommand, getTargetConfig, getTargetClient\<close>

subsection \<open>Target cluster configuration\<close>

text \<open>
  \<open>rest.Config\<close> of client-go, with the fields the command writes and one that tells
  configurations apart. \<open>QPS\<close> is a \<open>float32\<close> in Go; the code only stores the constant
  100.0 in it, which is exact, so no floating-point arithmetic is involved.
\<close>

record rest_Config =
  Host :: string
  QPS :: real
  Burst :: int

text \<open>\<open>user.User\<close> of os/user.\<close>

record User =
  HomeDir :: string

text \<open>
  What \<open>getTargetConfig\<close> and \<open>getTargetClient\<close> ask of the operating system and of
  client-go and controller-runtime. These functions are external; they are parameters.
  \<open>client_New_error\<close> says whether \<open>client.New\<close> fails for a configuration.
\<close>

record os_env =
  Getenv :: "string \<Rightarrow> string"
  BuildConfigFromFlags :: "string \<Rightarrow> string \<Rightarrow> error + rest_Config"
  InClusterConfig :: "error + rest_Config"
  user_Current :: "error + User"
  filepath_Join :: "string list \<Rightarrow> string"
  client_New_error :: "rest_Config \<Rightarrow> error option"

text \<open>\<open>getTargetConfig\<close>, part_000 lines 133-149.\<close>

definition getTargetConfig :: "os_env \<Rightarrow> string \<Rightarrow> error + rest_Config" where
  "getTargetConfig env kubeconfigPath =
     (if length kubeconfigPath > 0 then BuildConfigFromFlags env '''' kubeconfigPath
      else
        let kubeconfig = Getenv env ''KUBECONFIG'' in
        if length kubeconfig > 0 then BuildConfigFromFlags env '''' kubeconfig
        else
          (case InClusterConfig env of
             Inr c \<Rightarrow> Inr c
           | Inl _ \<Rightarrow>
               (case user_Current env of
                  Inr usr \<Rightarrow>
                    (case BuildConfigFromFlags env ''''
                            (filepath_Join env [HomeDir usr, ''.kube'', ''config'']) of
                       Inr c \<Rightarrow> Inr c
                     | Inl _ \<Rightarrow> Inl (Error ''could not create config for cluster''))
                | Inl _ \<Rightarrow> Inl (Error ''could not create config for cluster''))))"

text \<open>
  The credential sources of \<open>getTargetConfig\<close>: the path given by the flag, the
  environment variable \<open>KUBECONFIG\<close>, the in-cluster configuration, and the file
  \<open>.kube/config\<close> in the home directory of the current user.
\<close>

datatype source = FlagKubeconfig | EnvKubeconfig | InCluster | HomeKubeconfig

text \<open>
  The same function, recording in order the sources it examines: a source is recorded
  when the code reaches the statement that reads it (lines 134, 137, 140, 143).
\<close>

definition getTargetConfig_recording ::
  "os_env \<Rightarrow> string \<Rightarrow> source list \<times> (error + rest_Config)" where
  "getTargetConfig_recording env kubeconfigPath =
     (if length kubeconfigPath > 0
      then ([FlagKubeconfig], BuildConfigFromFlags env '''' kubeconfigPath)
      else
        let kubeconfig = Getenv env ''KUBECONFIG'' in
        if length kubeconfig > 0
        then ([FlagKubeconfig, EnvKubeconfig], BuildConfigFromFlags env '''' kubeconfig)
        else
          (case InClusterConfig env of
             Inr c \<Rightarrow> ([FlagKubeconfig, EnvKubeconfig, InCluster], Inr c)
           | Inl _ \<Rightarrow>
               (case user_Current env of
                  Inr usr \<Rightarrow>
                    (case BuildConfigFromFlags env ''''
                            (filepath_Join env [HomeDir usr, ''.kube'', ''config'']) of
                       Inr c \<Rightarrow>
                         ([FlagKubeconfig, EnvKubeconfig, InCluster, HomeKubeconfig], Inr c)
                     | Inl _ \<Rightarrow>
                         ([FlagKubeconfig, EnvKubeconfig, InCluster, HomeKubeconfig],
                          Inl (Error ''could not create config for cluster'')))
                | Inl _ \<Rightarrow>
                    ([FlagKubeconfig, EnvKubeconfig, InCluster, HomeKubeconfig],
                     Inl (Error ''could not create config for cluster'')))))"

definition consulted :: "os_env \<Rightarrow> string \<Rightarrow> source list" where
  "consulted env kubeconfigPath = fst (getTargetConfig_recording env kubeconfigPath)"

text \<open>What a source answers when it is asked on its own.\<close>

fun answer :: "os_env \<Rightarrow> string \<Rightarrow> source \<Rightarrow> error + rest_Config" where
  "answer env kubeconfigPath FlagKubeconfig = BuildConfigFromFlags env '''' kubeconfigPath"
| "answer env kubeconfigPath EnvKubeconfig =
     BuildConfigFromFlags env '''' (Getenv env ''KUBECONFIG'')"
| "answer env kubeconfigPath InCluster = InClusterConfig env"
| "answer env kubeconfigPath HomeKubeconfig =
     (case user_Current env of
        Inl e \<Rightarrow> Inl e
      | Inr usr \<Rightarrow>
          BuildConfigFromFlags env '''' (filepath_Join env [HomeDir usr, ''.kube'', ''config'']))"

text \<open>
  A source is available when it is there to be used: a path was given, the variable is
  set, or the configuration can be obtained.
\<close>

fun available :: "os_env \<Rightarrow> string \<Rightarrow> source \<Rightarrow> bool" where
  "available env kubeconfigPath FlagKubeconfig = (length kubeconfigPath > 0)"
| "available env kubeconfigPath EnvKubeconfig = (length (Getenv env ''KUBECONFIG'') > 0)"
| "available env kubeconfigPath InCluster = (\<not> isl (InClusterConfig env))"
| "available env kubeconfigPath HomeKubeconfig =
     (\<not> isl (answer env kubeconfigPath HomeKubeconfig))"

text \<open>A source produces a configuration when it is available and its answer is one.\<close>

definition produces :: "os_env \<Rightarrow> string \<Rightarrow> source \<Rightarrow> bool" where
  "produces env kubeconfigPath s =
     (available env kubeconfigPath s \<and> \<not> isl (answer env kubeconfigPath s))"

text \<open>The order in which the code goes through the sources.\<close>

definition fallback_chain :: "source list" where
  "fallback_chain = [FlagKubeconfig, EnvKubeconfig, InCluster, HomeKubeconfig]"

text \<open>
  The order the specification gives: "kubeconfig path, in-cluster config, or environment
  variable, in that fallback order", and the resolution that follows that order: the
  first source that is available decides.
\<close>

definition spec_fallback_chain :: "source list" where
  "spec_fallback_chain = [FlagKubeconfig, InCluster, EnvKubeconfig]"

definition getTargetConfig_spec_order :: "os_env \<Rightarrow> string \<Rightarrow> error + rest_Config" where
  "getTargetConfig_spec_order env kubeconfigPath =
     (case filter (available env kubeconfigPath) spec_fallback_chain of
        [] \<Rightarrow> Inl (Error ''could not create config for cluster'')
      | s # _ \<Rightarrow> answer env kubeconfigPath s)"

text \<open>
  The client for the target cluster, as far as the command is concerned: the
  configuration it was created from.
\<close>

record target_Client =
  target_config :: rest_Config

text \<open>\<open>client.New(targetConfig, client.Options{})\<close> of controller-runtime.\<close>

definition client_New :: "os_env \<Rightarrow> rest_Config \<Rightarrow> error + target_Client" where
  "client_New env config =
     (case client_New_error env config of
        Some err \<Rightarrow> Inl err
      | None \<Rightarrow> Inr \<lparr>target_config = config\<rparr>)"

text \<open>\<open>getTargetClient\<close>, part_000 lines 151-161.\<close>

definition getTargetClient :: "os_env \<Rightarrow> string \<Rightarrow> error + target_Client" where
  "getTargetClient env kubeconfigPath =
     (case getTargetConfig env kubeconfigPath of
        Inl err \<Rightarrow> Inl err
      | Inr targetConfig \<Rightarrow>
          client_New env (targetConfig\<lparr>QPS := 100.0, Burst := 130\<rparr>))"

subsection \<open>Flags\<close>

text \<open>
  The variables declared at lines 49-56. \<open>time.Duration\<close> is a number of nanoseconds;
  Go's \<open>int\<close> and \<open>time.Duration\<close> are taken as integers, since the command does no
  arithmetic on them.
\<close>

record flag_values =
  leaderElection :: bool
  leaderElectionNamespace :: string
  syncPeriod :: int
  targetKubeconfigPath :: string
  maxConcurrentWorkers :: int
  namespace :: string

datatype variable =
    Var_leaderElection
  | Var_leaderElectionNamespace
  | Var_syncPeriod
  | Var_targetKubeconfigPath
  | Var_maxConcurrentWorkers
  | Var_namespace

text \<open>
  A flag registration of pflag: the variable it is bound to, the name of the flag, the
  default value and the usage text.
\<close>

datatype flag =
    BoolVar variable string bool string
  | StringVar variable string string string
  | DurationVar variable string int string
  | IntVar variable string int string

fun flag_name :: "flag \<Rightarrow> string" where
  "flag_name (BoolVar v n d u) = n"
| "flag_name (StringVar v n d u) = n"
| "flag_name (DurationVar v n d u) = n"
| "flag_name (IntVar v n d u) = n"

fun flag_variable :: "flag \<Rightarrow> variable" where
  "flag_variable (BoolVar v n d u) = v"
| "flag_variable (StringVar v n d u) = v"
| "flag_variable (DurationVar v n d u) = v"
| "flag_variable (IntVar v n d u) = v"

definition time_Minute :: int where
  "time_Minute = 60 * 1000000000"

text \<open>The registrations of lines 123-128, in order.\<close>

definition command_flags :: "flag list" where
  "command_flags =
     [BoolVar Var_leaderElection ''leader-election'' True
        ''enable or disable leader election'',
      StringVar Var_leaderElectionNamespace ''leader-election-namespace'' ''''
        ''namespace for leader election'',
      DurationVar Var_syncPeriod ''sync-period'' time_Minute
        ''duration how often existing resources should be synced'',
      StringVar Var_targetKubeconfigPath ''target-kubeconfig'' ''''
        ''path to the kubeconfig for the target cluster'',
      IntVar Var_maxConcurrentWorkers ''max-concurrent-workers'' 10
        ''number of worker threads for concurrent reconciliation of resources'',
      StringVar Var_namespace ''namespace'' ''''
        ''namespace in which the ManagedResources should be observed (defaults to all namespaces)'']"

subsection \<open>The Run function of the command\<close>

text \<open>\<open>manager.Options\<close>, with the fields the command sets. \<open>SyncPeriod\<close> is a pointer.\<close>

record manager_Options =
  mgr_LeaderElection :: bool
  mgr_LeaderElectionID :: string
  mgr_LeaderElectionNamespace :: string
  mgr_SyncPeriod :: "int option"
  mgr_Namespace :: string

text \<open>The manager, as far as the command uses it: \<open>mgr.GetClient()\<close>.\<close>

record Manager =
  GetClient :: Client

text \<open>
  Modelled from the spec: \<open>managedresources.NewReconciler\<close> is a function of
  pkg/controller/managedresources that is not among the source files. The reconciler is
  represented by the two clients it is constructed with: the spec's reconcile loop reads
  the source cluster and mutates the target cluster.
\<close>

record Reconciler =
  reconciler_client :: Client
  reconciler_targetClient :: target_Client

definition NewReconciler :: "Client \<Rightarrow> target_Client \<Rightarrow> Reconciler" where
  "NewReconciler c targetClient =
     \<lparr>reconciler_client = c, reconciler_targetClient = targetClient\<rparr>"

text \<open>\<open>controller.Options\<close>.\<close>

record controller_Options =
  MaxConcurrentReconciles :: int
  Reconciler :: Reconciler

datatype source_Kind = Kind_ManagedResource | Kind_Secret

datatype EventHandler =
    EnqueueRequestForObject
  | EnqueueRequestsFromMapFunc secretToManagedResourceMapper

text \<open>
  The predicates given to \<open>Watch\<close>. \<open>managedresources.GenerationChangedPredicate\<close> is the
  only one; it is a function of this repository outside the source files, and the
  command only passes it on, so it is a name here.
\<close>

datatype watch_predicate = GenerationChangedPredicate

text \<open>The calls that \<open>Run\<close> makes to controller-runtime, with their arguments.\<close>

datatype call =
    ManagerNew rest_Config manager_Options
  | ControllerNew string controller_Options
  | Watch source_Kind EventHandler "watch_predicate list"
  | Start

text \<open>
  How controller-runtime answers: \<open>config.GetConfigOrDie\<close>, \<open>manager.New\<close>,
  \<open>AddToScheme\<close>, \<open>controller.New\<close>, \<open>Watch\<close> for each kind, and \<open>mgr.Start\<close>.
\<close>

record world =
  os :: os_env
  GetConfig :: "error + rest_Config"
  manager_New :: "rest_Config \<Rightarrow> manager_Options \<Rightarrow> error + Manager"
  AddToScheme :: "error option"
  controller_New_error :: "string \<Rightarrow> controller_Options \<Rightarrow> error option"
  Watch_error :: "source_Kind \<Rightarrow> error option"
  Start_error :: "error option"

text \<open>How \<open>Run\<close> ends: \<open>os.Exit\<close> with a code, a panic, or a normal return.\<close>

datatype ending = Exit int | Panic error | Returned

text \<open>
  The \<open>Run\<close> function of the command, lines 61-120: the calls it makes, in order, and how
  it ends. Log output is left out.
\<close>

definition Run :: "world \<Rightarrow> flag_values \<Rightarrow> call list \<times> ending" where
  "Run w fv =
     (case GetConfig w of
        Inl _ \<Rightarrow> ([], Exit 1)
      | Inr cfg \<Rightarrow>
     let options = \<lparr>mgr_LeaderElection = leaderElection fv,
                    mgr_LeaderElectionID = ''gardener-resource-manager'',
                    mgr_LeaderElectionNamespace = leaderElectionNamespace fv,
                    mgr_SyncPeriod = Some (syncPeriod fv),
                    mgr_Namespace = namespace fv\<rparr>;
         c1 = ManagerNew cfg options
     in
     (case manager_New w cfg options of
        Inl err \<Rightarrow> ([c1], Exit 1)
      | Inr mgr \<Rightarrow>
     (case AddToScheme w of
        Some err \<Rightarrow> ([c1], Panic err)
      | None \<Rightarrow>
     (case getTargetClient (os w) (targetKubeconfigPath fv) of
        Inl err \<Rightarrow> ([c1], Exit 1)
      | Inr targetClient \<Rightarrow>
     let coptions = \<lparr>MaxConcurrentReconciles = maxConcurrentWorkers fv,
                     Reconciler = NewReconciler (GetClient mgr) targetClient\<rparr>;
         c2 = ControllerNew ''resource-controller'' coptions
     in
     (case controller_New_error w ''resource-controller'' coptions of
        Some err \<Rightarrow> ([c1, c2], Exit 1)
      | None \<Rightarrow>
     let c3 = Watch Kind_ManagedResource EnqueueRequestForObject [GenerationChangedPredicate]
     in
     (case Watch_error w Kind_ManagedResource of
        Some err \<Rightarrow> ([c1, c2, c3], Exit 1)
      | None \<Rightarrow>
     let c4 = Watch Kind_Secret
                (EnqueueRequestsFromMapFunc
                   (SecretToManagedResourceMapper (GetClient mgr) [])) []
     in
     (case Watch_error w Kind_Secret of
        Some err \<Rightarrow> ([c1, c2, c3, c4], Exit 1)
      | None \<Rightarrow>
     (case Start_error w of
        Some err \<Rightarrow> ([c1, c2, c3, c4, Start], Exit 1)
      | None \<Rightarrow> ([c1, c2, c3, c4, Start], Returned)))))))))"

text \<open>
  The calls of a run in which nothing fails, given the configuration, the manager and the
  target client that the run obtains.
\<close>

definition calls_in_full ::
  "flag_values \<Rightarrow> rest_Config \<Rightarrow> Manager \<Rightarrow> target_Client \<Rightarrow> call list" where
  "calls_in_full fv cfg mgr targetClient =
     [ManagerNew cfg
        \<lparr>mgr_LeaderElection = leaderElection fv,
         mgr_LeaderElectionID = ''gardener-resource-manager'',
         mgr_LeaderElectionNamespace = leaderElectionNamespace fv,
         mgr_SyncPeriod = Some (syncPeriod fv),
         mgr_Namespace = namespace fv\<rparr>,
      ControllerNew ''resource-controller''
        \<lparr>MaxConcurrentReconciles = maxConcurrentWorkers fv,
         Reconciler = NewReconciler (GetClient mgr) targetClient\<rparr>,
      Watch Kind_ManagedResource EnqueueRequestForObject [GenerationChangedPredicate],
      Watch Kind_Secret
        (EnqueueRequestsFromMapFunc (SecretToManagedResourceMapper (GetClient mgr) [])) [],
      Start]"

text \<open>Concrete data for the examples.\<close>

definition config_flag :: rest_Config where
  "config_flag = \<lparr>Host = ''https://flag'', QPS = 5, Burst = 10\<rparr>"

definition config_env :: rest_Config where
  "config_env = \<lparr>Host = ''https://env'', QPS = 20, Burst = 30\<rparr>"

definition config_in_cluster :: rest_Config where
  "config_in_cluster = \<lparr>Host = ''https://in-cluster'', QPS = 5, Burst = 10\<rparr>"

text \<open>
  An environment in which \<open>KUBECONFIG\<close> names a readable file and the in-cluster
  configuration exists as well; the file \<open>/flag\<close> is readable, any other is not.
\<close>

definition build_example :: "string \<Rightarrow> string \<Rightarrow> error + rest_Config" where
  "build_example masterUrl path =
     (if path = ''/flag'' then Inr config_flag
      else if path = ''/env'' then Inr config_env
      else Inl (Error ''no such file''))"

definition getenv_example :: "string \<Rightarrow> string" where
  "getenv_example k = (if k = ''KUBECONFIG'' then ''/env'' else '''')"

definition getenv_unset :: "string \<Rightarrow> string" where
  "getenv_unset k = ''''"

definition join_example :: "string list \<Rightarrow> string" where
  "join_example parts = concat (map (\<lambda>p. CHR ''/'' # p) parts)"

definition client_New_succeeds :: "rest_Config \<Rightarrow> error option" where
  "client_New_succeeds config = None"

definition env_both :: os_env where
  "env_both = \<lparr>Getenv = getenv_example, BuildConfigFromFlags = build_example,
               InClusterConfig = Inr config_in_cluster,
               user_Current = Inl (Error ''no user''),
               filepath_Join = join_example,
               client_New_error = client_New_succeeds\<rparr>"

text \<open>An environment in which only the in-cluster configuration exists.\<close>

definition env_in_cluster :: os_env where
  "env_in_cluster = \<lparr>Getenv = getenv_unset, BuildConfigFromFlags = build_example,
               InClusterConfig = Inr config_in_cluster,
               user_Current = Inl (Error ''no user''),
               filepath_Join = join_example,
               client_New_error = client_New_succeeds\<rparr>"

text \<open>An environment in which no source is there.\<close>

definition env_none :: os_env where
  "env_none = \<lparr>Getenv = getenv_unset, BuildConfigFromFlags = build_example,
               InClusterConfig = Inl (Error ''not in a cluster''),
               user_Current = Inl (Error ''no user''),
               filepath_Join = join_example,
               client_New_error = client_New_succeeds\<rparr>"

text \<open>
  An environment in which \<open>KUBECONFIG\<close> names a file that cannot be read, while the
  in-cluster configuration exists.
\<close>

definition getenv_missing :: "string \<Rightarrow> string" where
  "getenv_missing k = (if k = ''KUBECONFIG'' then ''/missing'' else '''')"

definition env_missing_file :: os_env where
  "env_missing_file = \<lparr>Getenv = getenv_missing, BuildConfigFromFlags = build_example,
               InClusterConfig = Inr config_in_cluster,
               user_Current = Inl (Error ''no user''),
               filepath_Join = join_example,
               client_New_error = client_New_succeeds\<rparr>"

text \<open>A world in which every call of controller-runtime succeeds.\<close>

definition manager_example :: Manager where
  "manager_example = \<lparr>GetClient = listing_client stored\<rparr>"

definition manager_New_example :: "rest_Config \<Rightarrow> manager_Options \<Rightarrow> error + Manager" where
  "manager_New_example cfg options = Inr manager_example"

definition controller_New_succeeds :: "string \<Rightarrow> controller_Options \<Rightarrow> error option" where
  "controller_New_succeeds n options = None"

definition Watch_succeeds :: "source_Kind \<Rightarrow> error option" where
  "Watch_succeeds k = None"

definition world_ok :: world where
  "world_ok = \<lparr>os = env_both, GetConfig = Inr config_in_cluster,
               manager_New = manager_New_example, AddToScheme = None,
               controller_New_error = controller_New_succeeds,
               Watch_error = Watch_succeeds, Start_error = None\<rparr>"

definition flags_example :: flag_values where
  "flags_example = \<lparr>leaderElection = True, leaderElectionNamespace = ''garden'',
                    syncPeriod = 30 * 1000000000, targetKubeconfigPath = ''/flag'',
                    maxConcurrentWorkers = 7, namespace = ''garden''\<rparr>"

section \<open>Properties of the mapper\<close>

lemma EvalGenericPredicate_iff:
  "EvalGenericPredicate obj ps = (\<forall>p \<in> set ps. p obj)"
  by (induction ps) auto

lemma passes_iff: "passes m mr = (\<forall>p \<in> set (predicates m). p mr)"
  by (simp add: passes_def list_all_iff)

lemma range_SecretRefs_append:
  "range_SecretRefs mr secret refs requests =
     requests @ replicate (count_list (map ref_Name refs) (secret_Name secret)) (request_for mr)"
proof (induction refs arbitrary: requests)
  case Nil
  show ?case by simp
next
  case (Cons r refs)
  show ?case
    by (simp add: Cons.IH replicate_app_Cons_same)
qed

lemma range_Items_append:
  "range_Items m secret items requests =
     requests @ concat (map (contribution m secret) items)"
proof (induction items arbitrary: requests)
  case Nil
  show ?case by simp
next
  case (Cons mr items)
  show ?case
    by (simp add: Cons.IH contribution_def reference_count_def range_SecretRefs_append)
qed

lemma Map_secret_event:
  "client_List (client m) (secret_Namespace secret) = Inr items \<Longrightarrow>
   Map m (secret_event secret) = Inr (concat (map (contribution m secret) items))"
  by (simp add: Map_def secret_event_def range_Items_append)

lemma set_contribution:
  "set (contribution m secret mr) =
     (if passes m mr \<and> references mr (secret_Name secret)
      then {request_for mr} else {})"
  by (auto simp: contribution_def references_def reference_count_def count_list_0_iff
        passes_iff EvalGenericPredicate_iff)

lemma set_contributions:
  "set (concat (map (contribution m secret) items)) =
     request_for ` {mr \<in> set items. passes m mr \<and> references mr (secret_Name secret)}"
  by (auto simp: set_contribution split: if_splits)






lemmas example_defs =
  stored_def mr_once_def mr_twice_def mr_unrelated_def mr_elsewhere_def secret_s1_def
  listing_client_def failing_client_def SecretToManagedResourceMapper_def in_namespace_def
  secret_event_def nil_secret_event_def Map_def request_for_def never_def only_mr2_def

subsection \<open>Which requests Map returns\<close>

text \<open>
  C1 as the specification states it: for every Secret event, \<open>Map\<close> returns exactly the
  requests for the ManagedResources of the Secret's namespace that reference the Secret.
  It fails for a mapper with a predicate that rejects: the client lists \<open>mr1\<close> and \<open>mr2\<close>
  of namespace \<open>garden\<close>, both referencing \<open>s1\<close>, and \<open>Map\<close> returns no request.
\<close>

theorem Map_exactly_referencing_counterexample:
  "client_List (client (SecretToManagedResourceMapper (listing_client stored) [never]))
       (secret_Namespace secret_s1) = Inr [mr_once, mr_twice, mr_unrelated]
   \<and> Map (SecretToManagedResourceMapper (listing_client stored) [never])
          (secret_event secret_s1) = Inr []
   \<and> map request_for (referencing_in_namespace stored secret_s1)
       = [request_for mr_once, request_for mr_twice]
   \<and> set ([] :: Request list)
       \<noteq> set (map request_for (referencing_in_namespace stored secret_s1))"
  by (simp add: example_defs referencing_in_namespace_def references_def)

text \<open>
  C1, amended: when the client lists the ManagedResources of the Secret's namespace,
  \<open>Map\<close> returns requests, and these are, as a set, exactly the requests for the
  ManagedResources that live in that namespace, pass every predicate of the mapper and
  have a secret reference with the Secret's name. Every request carries the Secret's
  namespace.
\<close>

theorem Map_exactly_passing_and_referencing:
  assumes "client_List (client m) (secret_Namespace secret)
             = Inr (filter (in_namespace (secret_Namespace secret)) objs)"
  shows "\<exists>requests. Map m (secret_event secret) = Inr requests
       \<and> set requests
           = set (map request_for (filter (passes m) (referencing_in_namespace objs secret)))
       \<and> (\<forall>r \<in> set requests. Namespace (NamespacedName r) = secret_Namespace secret)"
proof -
  let ?requests = "concat (map (contribution m secret)
                     (filter (in_namespace (secret_Namespace secret)) objs))"
  have m: "Map m (secret_event secret) = Inr ?requests"
    by (rule Map_secret_event[OF assms])
  have eq: "set ?requests
           = set (map request_for (filter (passes m) (referencing_in_namespace objs secret)))"
    unfolding set_contributions by (auto simp: referencing_in_namespace_def)
  have "\<forall>r \<in> set (map request_for (filter (passes m) (referencing_in_namespace objs secret))).
            Namespace (NamespacedName r) = secret_Namespace secret"
    by (auto simp: referencing_in_namespace_def in_namespace_def request_for_def)
  then have "\<forall>r \<in> set ?requests. Namespace (NamespacedName r) = secret_Namespace secret"
    using eq by simp
  then show ?thesis using m eq by blast
qed

theorem Map_exactly_passing_and_referencing_witness:
  "client_List (client (SecretToManagedResourceMapper (listing_client stored) []))
       (secret_Namespace secret_s1)
     = Inr (filter (in_namespace (secret_Namespace secret_s1)) stored)
   \<and> Map (SecretToManagedResourceMapper (listing_client stored) []) (secret_event secret_s1)
     = Inr [\<lparr>NamespacedName = \<lparr>Namespace = ''garden'', Name = ''mr1''\<rparr>\<rparr>,
            \<lparr>NamespacedName = \<lparr>Namespace = ''garden'', Name = ''mr2''\<rparr>\<rparr>,
            \<lparr>NamespacedName = \<lparr>Namespace = ''garden'', Name = ''mr2''\<rparr>\<rparr>]
   \<and> set (map request_for
            (filter (passes (SecretToManagedResourceMapper (listing_client stored) []))
               (referencing_in_namespace stored secret_s1)))
     = {\<lparr>NamespacedName = \<lparr>Namespace = ''garden'', Name = ''mr1''\<rparr>\<rparr>,
        \<lparr>NamespacedName = \<lparr>Namespace = ''garden'', Name = ''mr2''\<rparr>\<rparr>}"
proof -
  have h: "client_List (client (SecretToManagedResourceMapper (listing_client stored) []))
       (secret_Namespace secret_s1)
     = Inr (filter (in_namespace (secret_Namespace secret_s1)) stored)"
    by (simp add: SecretToManagedResourceMapper_def listing_client_def)
  have v: "Map (SecretToManagedResourceMapper (listing_client stored) []) (secret_event secret_s1)
     = Inr [\<lparr>NamespacedName = \<lparr>Namespace = ''garden'', Name = ''mr1''\<rparr>\<rparr>,
            \<lparr>NamespacedName = \<lparr>Namespace = ''garden'', Name = ''mr2''\<rparr>\<rparr>,
            \<lparr>NamespacedName = \<lparr>Namespace = ''garden'', Name = ''mr2''\<rparr>\<rparr>]"
    by (simp add: example_defs)
  obtain requests
    where r: "Map (SecretToManagedResourceMapper (listing_client stored) [])
                (secret_event secret_s1) = Inr requests"
      and e: "set requests = set (map request_for
            (filter (passes (SecretToManagedResourceMapper (listing_client stored) []))
               (referencing_in_namespace stored secret_s1)))"
    using Map_exactly_passing_and_referencing[OF h] by blast
  from r v have "requests =
           [\<lparr>NamespacedName = \<lparr>Namespace = ''garden'', Name = ''mr1''\<rparr>\<rparr>,
            \<lparr>NamespacedName = \<lparr>Namespace = ''garden'', Name = ''mr2''\<rparr>\<rparr>,
            \<lparr>NamespacedName = \<lparr>Namespace = ''garden'', Name = ''mr2''\<rparr>\<rparr>]"
    by simp
  then have "set (map request_for
            (filter (passes (SecretToManagedResourceMapper (listing_client stored) []))
               (referencing_in_namespace stored secret_s1)))
     = {\<lparr>NamespacedName = \<lparr>Namespace = ''garden'', Name = ''mr1''\<rparr>\<rparr>,
        \<lparr>NamespacedName = \<lparr>Namespace = ''garden'', Name = ''mr2''\<rparr>\<rparr>}"
    using e by simp
  then show ?thesis using h v by simp
qed

subsection \<open>The predicate set\<close>

text \<open>
  C4: for every ManagedResource that the client lists for the Secret's namespace, \<open>Map\<close>
  emits a request only if the ManagedResource passes every predicate of the mapper. A
  ManagedResource that fails a predicate is skipped by the loop before its secret
  references are read, whatever they are: the iteration returns the requests unchanged,
  and the result is that of the loop over the passing ManagedResources alone.
\<close>

theorem Map_only_if_every_predicate:
  assumes "client_List (client m) (secret_Namespace secret) = Inr items"
  shows "(\<exists>requests. Map m (secret_event secret) = Inr requests
            \<and> (\<forall>req \<in> set requests.
                 \<exists>mr \<in> set items. (\<forall>p \<in> set (predicates m). p mr) \<and> req = request_for mr))
       \<and> (\<forall>mr rest requests. (\<exists>p \<in> set (predicates m). \<not> p mr) \<longrightarrow>
            range_Items m secret (mr # rest) requests = range_Items m secret rest requests)
       \<and> Map m (secret_event secret)
           = Inr (range_Items m secret (filter (passes m) items) [])"
proof -
  have m: "Map m (secret_event secret) = Inr (concat (map (contribution m secret) items))"
    by (rule Map_secret_event[OF assms])
  have "\<forall>req \<in> set (concat (map (contribution m secret) items)).
            \<exists>mr \<in> set items. (\<forall>p \<in> set (predicates m). p mr) \<and> req = request_for mr"
    unfolding set_contributions by (auto simp: passes_iff)
  then have a: "\<exists>requests. Map m (secret_event secret) = Inr requests
            \<and> (\<forall>req \<in> set requests.
                 \<exists>mr \<in> set items. (\<forall>p \<in> set (predicates m). p mr) \<and> req = request_for mr)"
    using m by blast
  have b: "\<forall>mr rest requests. (\<exists>p \<in> set (predicates m). \<not> p mr) \<longrightarrow>
            range_Items m secret (mr # rest) requests = range_Items m secret rest requests"
    by (simp add: EvalGenericPredicate_iff)
  have "concat (map (contribution m secret) xs)
          = concat (map (contribution m secret) (filter (passes m) xs))" for xs
    by (induction xs) (auto simp: contribution_def passes_iff EvalGenericPredicate_iff)
  then have c: "Map m (secret_event secret)
                  = Inr (range_Items m secret (filter (passes m) items) [])"
    by (simp add: m range_Items_append)
  show ?thesis using a b c by blast
qed

theorem Map_only_if_every_predicate_witness:
  "client_List (client (SecretToManagedResourceMapper (listing_client stored) [only_mr2]))
       (secret_Namespace secret_s1) = Inr [mr_once, mr_twice, mr_unrelated]
   \<and> references mr_once (secret_Name secret_s1) \<and> \<not> only_mr2 mr_once
   \<and> Map (SecretToManagedResourceMapper (listing_client stored) [only_mr2])
          (secret_event secret_s1)
       = Inr [request_for mr_twice, request_for mr_twice]
   \<and> Map (SecretToManagedResourceMapper (listing_client stored) [only_mr2])
          (secret_event secret_s1)
       = Inr (range_Items (SecretToManagedResourceMapper (listing_client stored) [only_mr2])
                secret_s1 [mr_twice] [])"
proof -
  have h: "client_List (client (SecretToManagedResourceMapper (listing_client stored) [only_mr2]))
       (secret_Namespace secret_s1) = Inr [mr_once, mr_twice, mr_unrelated]"
    by (simp add: example_defs)
  note t = Map_only_if_every_predicate[OF h]
  from t have c: "Map (SecretToManagedResourceMapper (listing_client stored) [only_mr2])
          (secret_event secret_s1)
       = Inr (range_Items (SecretToManagedResourceMapper (listing_client stored) [only_mr2])
                secret_s1
                (filter (passes (SecretToManagedResourceMapper (listing_client stored) [only_mr2]))
                   [mr_once, mr_twice, mr_unrelated]) [])"
    by (rule conjunct2[OF conjunct2])
  have f: "filter (passes (SecretToManagedResourceMapper (listing_client stored) [only_mr2]))
                   [mr_once, mr_twice, mr_unrelated] = [mr_twice]"
    by (simp add: example_defs passes_def)
  have v: "Map (SecretToManagedResourceMapper (listing_client stored) [only_mr2])
          (secret_event secret_s1)
       = Inr [request_for mr_twice, request_for mr_twice]"
    by (simp add: example_defs)
  have r: "references mr_once (secret_Name secret_s1) \<and> \<not> only_mr2 mr_once"
    by (simp add: example_defs references_def)
  show ?thesis using h c f v r by simp
qed

subsection \<open>Failure\<close>




subsection \<open>Duplicates\<close>



section \<open>Properties of the command\<close>

lemmas env_defs =
  env_both_def env_in_cluster_def env_none_def build_example_def getenv_example_def
  getenv_unset_def join_example_def client_New_succeeds_def config_flag_def config_env_def
  config_in_cluster_def env_missing_file_def getenv_missing_def

lemma recording_result:
  "snd (getTargetConfig_recording env p) = getTargetConfig env p"
  by (simp add: getTargetConfig_recording_def getTargetConfig_def Let_def split: sum.splits)

subsection \<open>The order of the credential sources\<close>

text \<open>
  C2 as the specification states it: the sources are tried in the order kubeconfig path,
  in-cluster configuration, environment variable. With no path given, \<open>KUBECONFIG\<close> set
  and an in-cluster configuration at hand, the code reads the environment variable
  second, returns the configuration of that file, and never asks for the in-cluster
  configuration, which the stated order would have returned.
\<close>

theorem spec_fallback_order_counterexample:
  "consulted env_both '''' = [FlagKubeconfig, EnvKubeconfig]
   \<and> \<not> prefix (consulted env_both '''') spec_fallback_chain
   \<and> available env_both '''' InCluster
   \<and> getTargetConfig env_both '''' = Inr config_env
   \<and> getTargetConfig_spec_order env_both '''' = Inr config_in_cluster
   \<and> getTargetConfig env_both '''' \<noteq> getTargetConfig_spec_order env_both ''''"
  by (simp add: consulted_def getTargetConfig_recording_def getTargetConfig_def
        getTargetConfig_spec_order_def spec_fallback_chain_def env_defs)

text \<open>
  C2, amended: \<open>getTargetConfig\<close> goes through the sources in the order kubeconfig path,
  environment variable \<open>KUBECONFIG\<close>, in-cluster configuration, \<open>.kube/config\<close> of the
  home directory. A later source is consulted only if every earlier one is unavailable.
  The last source consulted decides: its answer is returned if it is available, the
  error "could not create config for cluster" otherwise.
\<close>

theorem getTargetConfig_fallback_order:
  "prefix (consulted env p) fallback_chain
   \<and> consulted env p \<noteq> []
   \<and> (\<forall>s \<in> set (butlast (consulted env p)). \<not> available env p s)
   \<and> (available env p (last (consulted env p)) \<longrightarrow>
        getTargetConfig env p = answer env p (last (consulted env p)))
   \<and> (\<not> available env p (last (consulted env p)) \<longrightarrow>
        getTargetConfig env p = Inl (Error ''could not create config for cluster''))"
  by (auto simp: consulted_def getTargetConfig_recording_def getTargetConfig_def
        fallback_chain_def Let_def split: sum.splits)

theorem getTargetConfig_fallback_order_witness:
  "consulted env_in_cluster '''' = [FlagKubeconfig, EnvKubeconfig, InCluster]
   \<and> \<not> available env_in_cluster '''' FlagKubeconfig
   \<and> \<not> available env_in_cluster '''' EnvKubeconfig
   \<and> available env_in_cluster '''' InCluster
   \<and> getTargetConfig env_in_cluster '''' = Inr config_in_cluster"
proof -
  have c: "consulted env_in_cluster '''' = [FlagKubeconfig, EnvKubeconfig, InCluster]"
    by (simp add: consulted_def getTargetConfig_recording_def env_defs)
  have a: "available env_in_cluster '''' InCluster"
    by (simp add: env_defs)
  have r: "answer env_in_cluster '''' InCluster = Inr config_in_cluster"
    by (simp add: env_defs)
  show ?thesis
    using getTargetConfig_fallback_order[of env_in_cluster "''''"] c a r
    by simp
qed

subsection \<open>Rate limits of the target client\<close>

text \<open>
  C3 as the specification states it: the queries-per-second and burst ceilings of the
  target client can be set by the operator. Two kubeconfig files that ask for 5/10 and
  for 20/30 both give a client with 100/130.
\<close>

theorem rate_limits_configurable_counterexample:
  "getTargetConfig env_both ''/flag'' = Inr \<lparr>Host = ''https://flag'', QPS = 5, Burst = 10\<rparr>
   \<and> getTargetClient env_both ''/flag''
       = Inr \<lparr>target_config = \<lparr>Host = ''https://flag'', QPS = 100, Burst = 130\<rparr>\<rparr>
   \<and> getTargetConfig env_both '''' = Inr \<lparr>Host = ''https://env'', QPS = 20, Burst = 30\<rparr>
   \<and> getTargetClient env_both ''''
       = Inr \<lparr>target_config = \<lparr>Host = ''https://env'', QPS = 100, Burst = 130\<rparr>\<rparr>"
  by (simp add: getTargetClient_def getTargetConfig_def client_New_def env_defs)

text \<open>
  C3, amended: the target client is created with a queries-per-second ceiling of 100 and
  a burst ceiling of 130. Both are constants of the code: they replace whatever the
  resolved configuration holds, and no flag of the command sets them.
\<close>

theorem rate_limits_fixed:
  assumes "getTargetClient env p = Inr c"
  shows "QPS (target_config c) = 100 \<and> Burst (target_config c) = 130
       \<and> (\<forall>f \<in> set command_flags.
            flag_name f \<noteq> ''qps'' \<and> flag_name f \<noteq> ''burst'')"
proof -
  obtain cfg where c: "c = \<lparr>target_config = cfg\<lparr>QPS := 100, Burst := 130\<rparr>\<rparr>"
    using assms
    by (auto simp: getTargetClient_def client_New_def split: sum.splits option.splits)
  have "\<forall>f \<in> set command_flags. flag_name f \<noteq> ''qps'' \<and> flag_name f \<noteq> ''burst''"
    by (simp add: command_flags_def)
  then show ?thesis using c by simp
qed

theorem rate_limits_fixed_witness:
  "getTargetClient env_in_cluster ''''
     = Inr \<lparr>target_config = \<lparr>Host = ''https://in-cluster'', QPS = 100, Burst = 130\<rparr>\<rparr>
   \<and> QPS (target_config
        \<lparr>target_config = \<lparr>Host = ''https://in-cluster'', QPS = 100, Burst = 130\<rparr>\<rparr>) = 100
   \<and> Burst (target_config
        \<lparr>target_config = \<lparr>Host = ''https://in-cluster'', QPS = 100, Burst = 130\<rparr>\<rparr>) = 130"
proof -
  have h: "getTargetClient env_in_cluster ''''
     = Inr \<lparr>target_config = \<lparr>Host = ''https://in-cluster'', QPS = 100, Burst = 130\<rparr>\<rparr>"
    by (simp add: getTargetClient_def getTargetConfig_def client_New_def env_defs)
  show ?thesis
    using h rate_limits_fixed[OF h] by simp
qed

subsection \<open>When getTargetConfig fails\<close>

text \<open>
  C5 as the specification states it: \<open>getTargetConfig\<close> returns an error if and only if
  every credential source of the fallback chain fails to produce a configuration. With
  no path given and \<open>KUBECONFIG\<close> naming a file that cannot be read, the error of that
  file is returned, although the in-cluster configuration, a source of the chain, would
  have produced a configuration.
\<close>

theorem getTargetConfig_error_iff_all_counterexample:
  "getTargetConfig env_missing_file '''' = Inl (Error ''no such file'')
   \<and> InCluster \<in> set fallback_chain
   \<and> produces env_missing_file '''' InCluster
   \<and> answer env_missing_file '''' InCluster = Inr config_in_cluster"
  by (simp add: getTargetConfig_def fallback_chain_def produces_def env_defs)

text \<open>
  C5, amended: \<open>getTargetConfig\<close> returns an error if and only if every credential
  source that the call consults fails to produce a configuration. A non-empty
  kubeconfig path ends the chain: the result of building the configuration from it,
  configuration or error, is returned at once and no other source is consulted. With
  no path, a non-empty \<open>KUBECONFIG\<close> ends the chain in the same way. \<open>getTargetClient\<close>
  passes the error on.
\<close>

theorem getTargetConfig_error_iff_consulted:
  "(isl (getTargetConfig env p) \<longleftrightarrow> (\<forall>s \<in> set (consulted env p). \<not> produces env p s))
   \<and> (length p > 0 \<longrightarrow>
        getTargetConfig env p = BuildConfigFromFlags env '''' p
        \<and> consulted env p = [FlagKubeconfig])
   \<and> (length p = 0 \<and> length (Getenv env ''KUBECONFIG'') > 0 \<longrightarrow>
        getTargetConfig env p = BuildConfigFromFlags env '''' (Getenv env ''KUBECONFIG'')
        \<and> consulted env p = [FlagKubeconfig, EnvKubeconfig])
   \<and> (\<forall>err. getTargetConfig env p = Inl err \<longrightarrow> getTargetClient env p = Inl err)"
proof -
  have a: "isl (getTargetConfig env p) \<longleftrightarrow> (\<forall>s \<in> set (consulted env p). \<not> produces env p s)"
    by (auto simp: consulted_def getTargetConfig_recording_def getTargetConfig_def
          produces_def Let_def split: sum.splits)
  have b: "length p > 0 \<longrightarrow>
        getTargetConfig env p = BuildConfigFromFlags env '''' p
        \<and> consulted env p = [FlagKubeconfig]"
    by (simp add: consulted_def getTargetConfig_recording_def getTargetConfig_def)
  have b': "length p = 0 \<and> length (Getenv env ''KUBECONFIG'') > 0 \<longrightarrow>
        getTargetConfig env p = BuildConfigFromFlags env '''' (Getenv env ''KUBECONFIG'')
        \<and> consulted env p = [FlagKubeconfig, EnvKubeconfig]"
    by (simp add: consulted_def getTargetConfig_recording_def getTargetConfig_def)
  have c: "\<forall>err. getTargetConfig env p = Inl err \<longrightarrow> getTargetClient env p = Inl err"
    by (simp add: getTargetClient_def)
  show ?thesis using a b b' c by blast
qed

theorem getTargetConfig_error_iff_consulted_witness:
  "length ''/missing'' > 0
   \<and> consulted env_both ''/missing'' = [FlagKubeconfig]
   \<and> \<not> produces env_both ''/missing'' FlagKubeconfig
   \<and> getTargetConfig env_both ''/missing'' = Inl (Error ''no such file'')
   \<and> getTargetClient env_both ''/missing'' = Inl (Error ''no such file'')
   \<and> length (Getenv env_missing_file ''KUBECONFIG'') > 0
   \<and> consulted env_missing_file '''' = [FlagKubeconfig, EnvKubeconfig]
   \<and> isl (getTargetConfig env_none '''')
   \<and> consulted env_none '''' = fallback_chain"
proof -
  have l: "length ''/missing'' > 0" by simp
  have b: "BuildConfigFromFlags env_both '''' ''/missing'' = Inl (Error ''no such file'')"
    by (simp add: env_defs)
  have e: "length ('''' :: string) = 0 \<and> length (Getenv env_missing_file ''KUBECONFIG'') > 0"
    by (simp add: env_defs)
  have n: "\<forall>s \<in> set (consulted env_none ''''). \<not> produces env_none '''' s"
    by (simp add: consulted_def getTargetConfig_recording_def produces_def env_defs)
  have cn: "consulted env_none '''' = fallback_chain"
    by (simp add: consulted_def getTargetConfig_recording_def fallback_chain_def env_defs)
  show ?thesis
    using l b e n cn
      getTargetConfig_error_iff_consulted[of env_both "''/missing''"]
      getTargetConfig_error_iff_consulted[of env_missing_file "''''"]
      getTargetConfig_error_iff_consulted[of env_none "''''"]
    by auto
qed

lemmas world_defs =
  world_ok_def flags_example_def manager_example_def manager_New_example_def
  controller_New_succeeds_def Watch_succeeds_def

lemma getTargetClient_example:
  "getTargetClient env_both ''/flag''
     = Inr \<lparr>target_config = \<lparr>Host = ''https://flag'', QPS = 100, Burst = 130\<rparr>\<rparr>"
  by (simp add: getTargetClient_def getTargetConfig_def client_New_def env_defs)

lemma Run_example:
  "Run world_ok flags_example =
     ([ManagerNew config_in_cluster
         \<lparr>mgr_LeaderElection = True, mgr_LeaderElectionID = ''gardener-resource-manager'',
          mgr_LeaderElectionNamespace = ''garden'', mgr_SyncPeriod = Some 30000000000,
          mgr_Namespace = ''garden''\<rparr>,
       ControllerNew ''resource-controller''
         \<lparr>MaxConcurrentReconciles = 7,
          Reconciler = NewReconciler (listing_client stored)
            \<lparr>target_config = \<lparr>Host = ''https://flag'', QPS = 100, Burst = 130\<rparr>\<rparr>\<rparr>,
       Watch Kind_ManagedResource EnqueueRequestForObject [GenerationChangedPredicate],
       Watch Kind_Secret
         (EnqueueRequestsFromMapFunc (SecretToManagedResourceMapper (listing_client stored) []))
         [],
       Start], Returned)"
  by (simp add: Run_def world_defs getTargetClient_example)

text \<open>The calls of any run are an initial part of the calls of a run without failure.\<close>

lemma Run_calls_prefix:
  "\<exists>cfg mgr targetClient. prefix (fst (Run w fv)) (calls_in_full fv cfg mgr targetClient)"
proof (cases "GetConfig w")
  case (Inl e)
  then show ?thesis by (simp add: Run_def)
next
  case cfg: (Inr cfg)
  let ?options = "\<lparr>mgr_LeaderElection = leaderElection fv,
           mgr_LeaderElectionID = ''gardener-resource-manager'',
           mgr_LeaderElectionNamespace = leaderElectionNamespace fv,
           mgr_SyncPeriod = Some (syncPeriod fv),
           mgr_Namespace = namespace fv\<rparr>"
  show ?thesis
  proof (cases "manager_New w cfg ?options")
    case (Inl e)
    then have "fst (Run w fv) = [ManagerNew cfg ?options]"
      using cfg by (simp add: Run_def Let_def)
    then show ?thesis by (simp add: calls_in_full_def)
  next
    case mgr: (Inr mgr)
    show ?thesis
    proof (cases "getTargetClient (os w) (targetKubeconfigPath fv)")
      case (Inl e)
      then have "fst (Run w fv) = [ManagerNew cfg ?options]"
        using cfg mgr by (simp add: Run_def Let_def split: option.splits)
      then show ?thesis by (simp add: calls_in_full_def)
    next
      case tc: (Inr targetClient)
      have "prefix (fst (Run w fv)) (calls_in_full fv cfg mgr targetClient)"
        using cfg mgr tc by (simp add: Run_def Let_def calls_in_full_def split: option.splits)
      then show ?thesis by blast
    qed
  qed
qed

lemma Run_calls_member:
  assumes "c \<in> set (fst (Run w fv))"
  shows "(\<exists>cfg. c = ManagerNew cfg
            \<lparr>mgr_LeaderElection = leaderElection fv,
             mgr_LeaderElectionID = ''gardener-resource-manager'',
             mgr_LeaderElectionNamespace = leaderElectionNamespace fv,
             mgr_SyncPeriod = Some (syncPeriod fv),
             mgr_Namespace = namespace fv\<rparr>)
       \<or> (\<exists>r. c = ControllerNew ''resource-controller''
            \<lparr>MaxConcurrentReconciles = maxConcurrentWorkers fv, Reconciler = r\<rparr>)
       \<or> c = Watch Kind_ManagedResource EnqueueRequestForObject [GenerationChangedPredicate]
       \<or> (\<exists>cl. c = Watch Kind_Secret
            (EnqueueRequestsFromMapFunc (SecretToManagedResourceMapper cl [])) [])
       \<or> c = Start"
proof -
  obtain cfg mgr targetClient
    where p: "prefix (fst (Run w fv)) (calls_in_full fv cfg mgr targetClient)"
    using Run_calls_prefix by blast
  have "c \<in> set (calls_in_full fv cfg mgr targetClient)"
    using assms set_mono_prefix[OF p] by blast
  then show ?thesis
    by (auto simp: calls_in_full_def)
qed

text \<open>The calls that a run reaches when the steps before them succeed.\<close>

lemma Run_calls_manager_New:
  assumes "GetConfig w = Inr cfg"
  shows "take 1 (fst (Run w fv)) =
     [ManagerNew cfg
        \<lparr>mgr_LeaderElection = leaderElection fv,
         mgr_LeaderElectionID = ''gardener-resource-manager'',
         mgr_LeaderElectionNamespace = leaderElectionNamespace fv,
         mgr_SyncPeriod = Some (syncPeriod fv),
         mgr_Namespace = namespace fv\<rparr>]"
  using assms by (simp add: Run_def Let_def split: sum.splits option.splits)

lemma Run_calls_controller_New:
  assumes "GetConfig w = Inr cfg"
    and "manager_New w cfg
           \<lparr>mgr_LeaderElection = leaderElection fv,
            mgr_LeaderElectionID = ''gardener-resource-manager'',
            mgr_LeaderElectionNamespace = leaderElectionNamespace fv,
            mgr_SyncPeriod = Some (syncPeriod fv),
            mgr_Namespace = namespace fv\<rparr> = Inr mgr"
    and "AddToScheme w = None"
    and "getTargetClient (os w) (targetKubeconfigPath fv) = Inr targetClient"
  shows "take 2 (fst (Run w fv)) = take 2 (calls_in_full fv cfg mgr targetClient)"
  using assms by (simp add: Run_def Let_def calls_in_full_def split: option.splits)


subsection \<open>Flags and what becomes of them\<close>

text \<open>
  C6: the command registers exactly six flags: \<open>leader-election\<close>,
  \<open>leader-election-namespace\<close>, \<open>sync-period\<close>, \<open>target-kubeconfig\<close>,
  \<open>max-concurrent-workers\<close> and \<open>namespace\<close>, each bound to its variable. Once the
  configuration of the source cluster is there, the first call of \<open>Run\<close> is
  \<open>manager.New\<close> with the sync period and the namespace in its options; once the
  manager, the scheme and the target client are there, the second call is
  \<open>controller.New\<close> with the max-concurrent-workers value as
  \<open>MaxConcurrentReconciles\<close>. No call of \<open>Run\<close> to either function carries other values.
\<close>

theorem command_flags_and_options:
  "map flag_name command_flags
     = [''leader-election'', ''leader-election-namespace'', ''sync-period'',
        ''target-kubeconfig'', ''max-concurrent-workers'', ''namespace'']
   \<and> map flag_variable command_flags
     = [Var_leaderElection, Var_leaderElectionNamespace, Var_syncPeriod,
        Var_targetKubeconfigPath, Var_maxConcurrentWorkers, Var_namespace]
   \<and> (\<forall>cfg. GetConfig w = Inr cfg \<longrightarrow>
         take 1 (fst (Run w fv)) =
           [ManagerNew cfg
              \<lparr>mgr_LeaderElection = leaderElection fv,
               mgr_LeaderElectionID = ''gardener-resource-manager'',
               mgr_LeaderElectionNamespace = leaderElectionNamespace fv,
               mgr_SyncPeriod = Some (syncPeriod fv),
               mgr_Namespace = namespace fv\<rparr>])
   \<and> (\<forall>cfg mgr targetClient.
         GetConfig w = Inr cfg
         \<and> manager_New w cfg
             \<lparr>mgr_LeaderElection = leaderElection fv,
              mgr_LeaderElectionID = ''gardener-resource-manager'',
              mgr_LeaderElectionNamespace = leaderElectionNamespace fv,
              mgr_SyncPeriod = Some (syncPeriod fv),
              mgr_Namespace = namespace fv\<rparr> = Inr mgr
         \<and> AddToScheme w = None
         \<and> getTargetClient (os w) (targetKubeconfigPath fv) = Inr targetClient \<longrightarrow>
         take 2 (fst (Run w fv)) =
           [ManagerNew cfg
              \<lparr>mgr_LeaderElection = leaderElection fv,
               mgr_LeaderElectionID = ''gardener-resource-manager'',
               mgr_LeaderElectionNamespace = leaderElectionNamespace fv,
               mgr_SyncPeriod = Some (syncPeriod fv),
               mgr_Namespace = namespace fv\<rparr>,
            ControllerNew ''resource-controller''
              \<lparr>MaxConcurrentReconciles = maxConcurrentWorkers fv,
               Reconciler = NewReconciler (GetClient mgr) targetClient\<rparr>])
   \<and> (\<forall>cfg options. ManagerNew cfg options \<in> set (fst (Run w fv)) \<longrightarrow>
         mgr_SyncPeriod options = Some (syncPeriod fv) \<and> mgr_Namespace options = namespace fv)
   \<and> (\<forall>n options. ControllerNew n options \<in> set (fst (Run w fv)) \<longrightarrow>
         MaxConcurrentReconciles options = maxConcurrentWorkers fv)"
proof -
  have a: "map flag_name command_flags
     = [''leader-election'', ''leader-election-namespace'', ''sync-period'',
        ''target-kubeconfig'', ''max-concurrent-workers'', ''namespace'']"
    by (simp add: command_flags_def)
  have b: "map flag_variable command_flags
     = [Var_leaderElection, Var_leaderElectionNamespace, Var_syncPeriod,
        Var_targetKubeconfigPath, Var_maxConcurrentWorkers, Var_namespace]"
    by (simp add: command_flags_def)
  have m: "\<forall>cfg. GetConfig w = Inr cfg \<longrightarrow>
         take 1 (fst (Run w fv)) =
           [ManagerNew cfg
              \<lparr>mgr_LeaderElection = leaderElection fv,
               mgr_LeaderElectionID = ''gardener-resource-manager'',
               mgr_LeaderElectionNamespace = leaderElectionNamespace fv,
               mgr_SyncPeriod = Some (syncPeriod fv),
               mgr_Namespace = namespace fv\<rparr>]"
    using Run_calls_manager_New by blast
  have k: "\<forall>cfg mgr targetClient.
         GetConfig w = Inr cfg
         \<and> manager_New w cfg
             \<lparr>mgr_LeaderElection = leaderElection fv,
              mgr_LeaderElectionID = ''gardener-resource-manager'',
              mgr_LeaderElectionNamespace = leaderElectionNamespace fv,
              mgr_SyncPeriod = Some (syncPeriod fv),
              mgr_Namespace = namespace fv\<rparr> = Inr mgr
         \<and> AddToScheme w = None
         \<and> getTargetClient (os w) (targetKubeconfigPath fv) = Inr targetClient \<longrightarrow>
         take 2 (fst (Run w fv)) =
           [ManagerNew cfg
              \<lparr>mgr_LeaderElection = leaderElection fv,
               mgr_LeaderElectionID = ''gardener-resource-manager'',
               mgr_LeaderElectionNamespace = leaderElectionNamespace fv,
               mgr_SyncPeriod = Some (syncPeriod fv),
               mgr_Namespace = namespace fv\<rparr>,
            ControllerNew ''resource-controller''
              \<lparr>MaxConcurrentReconciles = maxConcurrentWorkers fv,
               Reconciler = NewReconciler (GetClient mgr) targetClient\<rparr>]"
    using Run_calls_controller_New[of w _ fv] by (simp add: calls_in_full_def)
  have c: "mgr_SyncPeriod options = Some (syncPeriod fv) \<and> mgr_Namespace options = namespace fv"
    if "ManagerNew cfg options \<in> set (fst (Run w fv))" for cfg options
    using Run_calls_member[OF that] by auto
  have d: "MaxConcurrentReconciles options = maxConcurrentWorkers fv"
    if "ControllerNew n options \<in> set (fst (Run w fv))" for n options
    using Run_calls_member[OF that] by auto
  show ?thesis using a b m k c d by blast
qed

theorem command_flags_and_options_witness:
  "GetConfig world_ok = Inr config_in_cluster
   \<and> manager_New world_ok config_in_cluster
        \<lparr>mgr_LeaderElection = leaderElection flags_example,
         mgr_LeaderElectionID = ''gardener-resource-manager'',
         mgr_LeaderElectionNamespace = leaderElectionNamespace flags_example,
         mgr_SyncPeriod = Some (syncPeriod flags_example),
         mgr_Namespace = namespace flags_example\<rparr> = Inr manager_example
   \<and> AddToScheme world_ok = None
   \<and> getTargetClient (os world_ok) (targetKubeconfigPath flags_example)
        = Inr \<lparr>target_config = \<lparr>Host = ''https://flag'', QPS = 100, Burst = 130\<rparr>\<rparr>
   \<and> take 2 (fst (Run world_ok flags_example)) =
        [ManagerNew config_in_cluster
           \<lparr>mgr_LeaderElection = True, mgr_LeaderElectionID = ''gardener-resource-manager'',
            mgr_LeaderElectionNamespace = ''garden'', mgr_SyncPeriod = Some 30000000000,
            mgr_Namespace = ''garden''\<rparr>,
         ControllerNew ''resource-controller''
           \<lparr>MaxConcurrentReconciles = 7,
            Reconciler = NewReconciler (listing_client stored)
              \<lparr>target_config = \<lparr>Host = ''https://flag'', QPS = 100, Burst = 130\<rparr>\<rparr>\<rparr>]"
proof -
  have h1: "GetConfig world_ok = Inr config_in_cluster"
    by (simp add: world_ok_def)
  have h2: "manager_New world_ok config_in_cluster
        \<lparr>mgr_LeaderElection = leaderElection flags_example,
         mgr_LeaderElectionID = ''gardener-resource-manager'',
         mgr_LeaderElectionNamespace = leaderElectionNamespace flags_example,
         mgr_SyncPeriod = Some (syncPeriod flags_example),
         mgr_Namespace = namespace flags_example\<rparr> = Inr manager_example"
    by (simp add: world_ok_def manager_New_example_def)
  have h3: "AddToScheme world_ok = None"
    by (simp add: world_ok_def)
  have h4: "getTargetClient (os world_ok) (targetKubeconfigPath flags_example)
        = Inr \<lparr>target_config = \<lparr>Host = ''https://flag'', QPS = 100, Burst = 130\<rparr>\<rparr>"
    using getTargetClient_example by (simp add: world_ok_def flags_example_def)
  note t = command_flags_and_options[of world_ok flags_example]
  from t have k: "\<forall>cfg mgr targetClient.
         GetConfig world_ok = Inr cfg
         \<and> manager_New world_ok cfg
             \<lparr>mgr_LeaderElection = leaderElection flags_example,
              mgr_LeaderElectionID = ''gardener-resource-manager'',
              mgr_LeaderElectionNamespace = leaderElectionNamespace flags_example,
              mgr_SyncPeriod = Some (syncPeriod flags_example),
              mgr_Namespace = namespace flags_example\<rparr> = Inr mgr
         \<and> AddToScheme world_ok = None
         \<and> getTargetClient (os world_ok) (targetKubeconfigPath flags_example) = Inr targetClient
         \<longrightarrow>
         take 2 (fst (Run world_ok flags_example)) =
           [ManagerNew cfg
              \<lparr>mgr_LeaderElection = leaderElection flags_example,
               mgr_LeaderElectionID = ''gardener-resource-manager'',
               mgr_LeaderElectionNamespace = leaderElectionNamespace flags_example,
               mgr_SyncPeriod = Some (syncPeriod flags_example),
               mgr_Namespace = namespace flags_example\<rparr>,
            ControllerNew ''resource-controller''
              \<lparr>MaxConcurrentReconciles = maxConcurrentWorkers flags_example,
               Reconciler = NewReconciler (GetClient mgr) targetClient\<rparr>]"
    by (rule conjunct1[OF conjunct2[OF conjunct2[OF conjunct2]]])
  have v: "take 2 (fst (Run world_ok flags_example)) =
           [ManagerNew config_in_cluster
              \<lparr>mgr_LeaderElection = leaderElection flags_example,
               mgr_LeaderElectionID = ''gardener-resource-manager'',
               mgr_LeaderElectionNamespace = leaderElectionNamespace flags_example,
               mgr_SyncPeriod = Some (syncPeriod flags_example),
               mgr_Namespace = namespace flags_example\<rparr>,
            ControllerNew ''resource-controller''
              \<lparr>MaxConcurrentReconciles = maxConcurrentWorkers flags_example,
               Reconciler = NewReconciler (GetClient manager_example)
                 \<lparr>target_config = \<lparr>Host = ''https://flag'', QPS = 100, Burst = 130\<rparr>\<rparr>\<rparr>]"
    using k[rule_format, of config_in_cluster manager_example] h1 h2 h3 h4 by blast
  have e: "leaderElection flags_example = True
         \<and> leaderElectionNamespace flags_example = ''garden''
         \<and> syncPeriod flags_example = 30000000000
         \<and> namespace flags_example = ''garden''
         \<and> maxConcurrentWorkers flags_example = 7
         \<and> GetClient manager_example = listing_client stored"
    by (simp add: flags_example_def manager_example_def)
  show ?thesis using h1 h2 h3 h4 v e by simp
qed

subsection \<open>The Secret watch\<close>



end
